theory Spec2Isabelle
  imports Main
begin

section \<open>The schema of \<open>model.py\<close>\<close>

text \<open>
  The classes \<open>model.py\<close> declares are \<open>Service\<close> and \<open>API\<close>, both descendants
  of \<open>Model\<close>.
\<close>

text \<open>
  Modelled from the spec: \<open>Owned n\<close> is a namespaced entity class named \<open>n\<close>, one whose
  rows carry an owner reference. The helpers \<open>_namespaced_query\<close>, \<open>_assert_absent_n\<close>
  and \<open>_must_find_n\<close> of \<open>api.py\<close> take such a class as \<open>cls_inner\<close>, but
  \<open>model.py\<close> declares none. Such a class is mapped on its own and its table can be
  queried.
\<close>

datatype cls = Service | API | Owned string

text \<open>\<open>cls.__name__\<close>.\<close>

fun cls_name :: "cls \<Rightarrow> string" where
  "cls_name Service = ''Service''"
| "cls_name API = ''API''"
| "cls_name (Owned n) = n"

text \<open>The classes that \<open>model.py\<close> itself maps.\<close>

fun declared :: "cls \<Rightarrow> bool" where
  "declared Service = True"
| "declared API = True"
| "declared (Owned n) = False"

text \<open>\<open>str.lower\<close> on ASCII, and \<open>__tablename__\<close>, which is \<open>cls.__name__.lower()\<close>.\<close>

fun lower_char :: "char \<Rightarrow> char" where
  "lower_char (Char b0 b1 b2 b3 b4 b5 b6 b7) =
     (if 65 \<le> (of_char (Char b0 b1 b2 b3 b4 b5 b6 b7) :: nat) \<and>
         (of_char (Char b0 b1 b2 b3 b4 b5 b6 b7) :: nat) \<le> 90
      then Char b0 b1 b2 b3 b4 True b6 b7
      else Char b0 b1 b2 b3 b4 b5 b6 b7)"

definition lower :: "string \<Rightarrow> string" where
  "lower s = map lower_char s"

definition tablename :: "cls \<Rightarrow> string" where
  "tablename c = lower (cls_name c)"

text \<open>
  The two columns of \<open>Model\<close>: \<open>id = Column(Integer, primary_key=True, nullable=False)\<close>
  and \<open>label = Column(String, nullable=False)\<close>. Neither is declared unique.
\<close>

record column =
  primary_key :: bool
  nullable :: bool
  unique :: bool

definition id_column :: column where
  "id_column = \<lparr>primary_key = True, nullable = False, unique = False\<rparr>"

definition label_column :: column where
  "label_column = \<lparr>primary_key = False, nullable = False, unique = False\<rparr>"

text \<open>
  The joining table \<open>service_api\<close>: each column with the table its \<open>ForeignKey\<close> names.
  The column \<open>service_id\<close> is declared with \<open>ForeignKey('user.id')\<close>.
\<close>

definition service_api :: "(string \<times> string) list" where
  "service_api = [(''service_id'', ''user''), (''api_id'', ''api'')]"

text \<open>
  The relationship \<open>Service.api\<close> goes to \<open>API\<close> through the secondary table
  \<open>service_api\<close>. Its join condition is found from the foreign keys of the secondary
  table: one has to name the table of each of the two classes.
\<close>

definition links :: "(string \<times> string) list \<Rightarrow> cls \<Rightarrow> bool" where
  "links secondary c = (tablename c \<in> set (map snd secondary))"

definition mappers_ok :: bool where
  "mappers_ok = (links service_api Service \<and> links service_api API)"

text \<open>
  A mapped object. \<open>obj_id\<close> is the column \<open>id\<close>: \<open>None\<close> until the row is inserted.
  The attribute \<open>api\<close> of a service is the collection of the relationship. The owner
  reference of a namespaced row is the identity of the owning row: its class and primary key.
\<close>

datatype obj =
    ServiceObj (obj_id: "nat option") (label: string) (service_type: string)
      (api: "obj list") (endpoint: string)
  | APIObj (obj_id: "nat option") (label: string)
  | OwnedObj (inner_cls: string) (obj_id: "nat option") (label: string)
      (owner: "cls \<times> nat option")

text \<open>\<open>obj.__class__\<close>.\<close>

fun class_of :: "obj \<Rightarrow> cls" where
  "class_of (ServiceObj i l t a e) = Service"
| "class_of (APIObj i l) = API"
| "class_of (OwnedObj n i l ow) = Owned n"

text \<open>The identity of a row: its class and its primary key.\<close>

definition identity :: "obj \<Rightarrow> cls \<times> nat option" where
  "identity x = (class_of x, obj_id x)"

text \<open>Which classes map an attribute \<open>owner\<close>: neither class of \<open>model.py\<close> does.\<close>

fun has_owner :: "cls \<Rightarrow> bool" where
  "has_owner (Owned n) = True"
| "has_owner c = False"

fun owner_ref :: "obj \<Rightarrow> (cls \<times> nat option) option" where
  "owner_ref (OwnedObj n i l ow) = Some ow"
| "owner_ref x = None"

fun with_id :: "nat \<Rightarrow> obj \<Rightarrow> obj" where
  "with_id k (ServiceObj i l t a e) = ServiceObj (Some k) l t a e"
| "with_id k (APIObj i l) = APIObj (Some k) l"
| "with_id k (OwnedObj n i l ow) = OwnedObj n (Some k) l ow"

text \<open>
  The names of the module \<open>model\<close> that are classes: \<open>model.Service\<close> and \<open>model.API\<close>.
  Any other class name is not an attribute of the module.
\<close>

definition model_class :: "string \<Rightarrow> cls option" where
  "model_class n =
     (if n = ''Service'' then Some Service
      else if n = ''API'' then Some API
      else None)"

section \<open>Errors\<close>

text \<open>
  \<open>NotFoundError\<close> and \<open>DuplicateError\<close> are the two \<open>APIError\<close> classes of \<open>api.py\<close>,
  each with its message. \<open>AttributeError\<close> is what Python raises for a name a module does
  not define, \<open>InvalidRequestError\<close> what \<open>filter_by\<close> raises for an attribute the class
  does not map, \<open>NoForeignKeysError\<close> what the configuration of the mappers raises for a
  relationship without a join condition, and \<open>TypeError\<close> what the assignment of a single
  object to a collection raises.
\<close>

datatype error =
    NotFoundError string
  | DuplicateError string
  | AttributeError string
  | InvalidRequestError string
  | NoForeignKeysError string
  | TypeError string

text \<open>The class attribute \<open>status_code\<close>, declared by the two API errors.\<close>

fun status_code :: "error \<Rightarrow> nat option" where
  "status_code (NotFoundError m) = Some 404"
| "status_code (DuplicateError m) = Some 409"
| "status_code e = None"

section \<open>Calls that may raise\<close>

text \<open>
  A session works on the rows of the database. \<open>persisted\<close> are the committed rows,
  \<open>rows\<close> is what the session sees: the committed rows with its own additions and
  deletions, which \<open>commit\<close> makes the committed ones.
\<close>

record session =
  persisted :: "obj list"
  rows :: "obj list"

text \<open>
  A call in a request either returns a value or raises, and leaves a session behind.
  \<open>bindE\<close> is sequencing: an exception ends the request with the session as it is.
\<close>

type_synonym 'a action = "session \<Rightarrow> (error + 'a) \<times> session"

definition ret :: "'a \<Rightarrow> 'a action" where
  "ret x = (\<lambda>db. (Inr x, db))"

definition raise :: "error \<Rightarrow> 'a action" where
  "raise e = (\<lambda>db. (Inl e, db))"

definition bindE :: "'a action \<Rightarrow> ('a \<Rightarrow> 'b action) \<Rightarrow> 'b action" where
  "bindE m f = (\<lambda>db. case m db of (Inl e, db') \<Rightarrow> (Inl e, db') | (Inr x, db') \<Rightarrow> f x db')"

definition update :: "(session \<Rightarrow> session) \<Rightarrow> unit action" where
  "update f = (\<lambda>db. (Inr (), f db))"

text \<open>The attribute access \<open>model.n\<close> for a class name \<open>n\<close>.\<close>

definition model_getattr :: "string \<Rightarrow> cls action" where
  "model_getattr n = (case model_class n of Some c \<Rightarrow> ret c | None \<Rightarrow> raise (AttributeError n))"

text \<open>
  The configuration of the mappers of \<open>model.py\<close>, which the first query on one of its
  classes and the first construction of one of its objects run.
\<close>

definition configure_mappers :: "unit action" where
  "configure_mappers =
     (if mappers_ok then ret () else raise (NoForeignKeysError ''Service.api''))"

section \<open>Sessions\<close>

text \<open>\<open>model.Session()\<close> on a database holding the rows \<open>st\<close>.\<close>

definition Session :: "obj list \<Rightarrow> session" where
  "Session st = \<lparr>persisted = st, rows = st\<rparr>"

text \<open>The rows of the table of \<open>c\<close>, in table order.\<close>

definition table_rows :: "session \<Rightarrow> cls \<Rightarrow> obj list" where
  "table_rows db c = filter (\<lambda>r. class_of r = c) (rows db)"

text \<open>
  \<open>session.query(cls)\<close>: on a class of \<open>model.py\<close> the mappers are configured first;
  the result is the table of the class.
\<close>

definition db_query :: "cls \<Rightarrow> (obj list) action" where
  "db_query c =
     bindE (if declared c then configure_mappers else ret ()) (\<lambda>u db.
       (Inr (table_rows db c), db))"

text \<open>\<open>.filter_by(label = name)\<close> and \<open>.filter_by(owner = obj_outer)\<close>.\<close>

definition filter_by_label :: "string \<Rightarrow> obj list \<Rightarrow> obj list" where
  "filter_by_label name q = filter (\<lambda>r. label r = name) q"

definition filter_by_owner :: "obj \<Rightarrow> obj list \<Rightarrow> obj list" where
  "filter_by_owner obj_outer q = filter (\<lambda>r. owner_ref r = Some (identity obj_outer)) q"

text \<open>\<open>.first()\<close>: the first row of the result, \<open>None\<close> when there is none.\<close>

fun first_row :: "obj list \<Rightarrow> obj option" where
  "first_row [] = None"
| "first_row (r # q) = Some r"

text \<open>The primary key the table of \<open>c\<close> gives its next row.\<close>

definition next_id :: "session \<Rightarrow> cls \<Rightarrow> nat" where
  "next_id db c =
     Suc (fold (\<lambda>r m. case obj_id r of None \<Rightarrow> m | Some k \<Rightarrow> max k m) (table_rows db c) 0)"

text \<open>\<open>session.add(x)\<close>, \<open>session.delete(x)\<close> and \<open>session.commit()\<close>.\<close>

definition db_add :: "obj \<Rightarrow> session \<Rightarrow> session" where
  "db_add x db = db\<lparr>rows := rows db @ [with_id (next_id db (class_of x)) x]\<rparr>"

definition db_delete :: "obj \<Rightarrow> session \<Rightarrow> session" where
  "db_delete x db = db\<lparr>rows := filter (\<lambda>r. identity r \<noteq> identity x) (rows db)\<rparr>"

definition db_commit :: "session \<Rightarrow> session" where
  "db_commit db = db\<lparr>persisted := rows db\<rparr>"

text \<open>
  A request: the body runs on a fresh session over the database, and the database afterwards
  holds what the session committed.
\<close>

definition run_request :: "'a action \<Rightarrow> obj list \<Rightarrow> (error + 'a) \<times> obj list" where
  "run_request body st = (case body (Session st) of (r, db) \<Rightarrow> (r, persisted db))"

section \<open>The constructors of \<open>model.py\<close>\<close>

text \<open>
  What a caller hands to \<open>Service.__init__\<close> as \<open>api\<close>: one object or a list of objects.
  \<open>self.api = api\<close> assigns it to the collection of the relationship, which takes a list
  only.
\<close>

datatype arg = Single obj | Collection "obj list"

definition Service_init :: "string \<Rightarrow> string \<Rightarrow> arg \<Rightarrow> string \<Rightarrow> obj action" where
  "Service_init label_name type_name api_arg endpoint_name =
     bindE configure_mappers (\<lambda>u.
       case api_arg of
         Collection xs \<Rightarrow> ret (ServiceObj None label_name type_name xs endpoint_name)
       | Single x \<Rightarrow> raise (TypeError (cls_name (class_of x) @ '' is not list-like'')))"

definition API_init :: "string \<Rightarrow> obj action" where
  "API_init label_name = bindE configure_mappers (\<lambda>u. ret (APIObj None label_name))"

section \<open>The helper functions of \<open>api.py\<close>\<close>

definition assert_absent :: "cls \<Rightarrow> string \<Rightarrow> unit action" where
  "assert_absent c name =
     bindE (db_query c) (\<lambda>q.
       case first_row (filter_by_label name q) of
         Some ob \<Rightarrow> raise (DuplicateError (cls_name c @ '' '' @ name @ '' already exists.''))
       | None \<Rightarrow> ret ())"

definition must_find :: "cls \<Rightarrow> string \<Rightarrow> obj action" where
  "must_find c name =
     bindE (db_query c) (\<lambda>q.
       case first_row (filter_by_label name q) of
         None \<Rightarrow> raise (NotFoundError (cls_name c @ '' '' @ name @ '' does not exist.''))
       | Some ob \<Rightarrow> ret ob)"

definition namespaced_query :: "obj \<Rightarrow> cls \<Rightarrow> string \<Rightarrow> (obj option) action" where
  "namespaced_query obj_outer cls_inner name_inner =
     bindE (db_query cls_inner) (\<lambda>q.
       if has_owner cls_inner
       then ret (first_row (filter_by_label name_inner (filter_by_owner obj_outer q)))
       else raise (InvalidRequestError ''owner''))"

definition assert_absent_n :: "obj \<Rightarrow> cls \<Rightarrow> string \<Rightarrow> unit action" where
  "assert_absent_n obj_outer cls_inner name_inner =
     bindE (namespaced_query obj_outer cls_inner name_inner) (\<lambda>obj_inner.
       case obj_inner of
         Some ob \<Rightarrow> raise (DuplicateError
           (cls_name cls_inner @ '' '' @ name_inner @ '' on '' @
            cls_name (class_of obj_outer) @ '' '' @ label obj_outer @ '' already exists''))
       | None \<Rightarrow> ret ())"

definition must_find_n :: "obj \<Rightarrow> cls \<Rightarrow> string \<Rightarrow> obj action" where
  "must_find_n obj_outer cls_inner name_inner =
     bindE (namespaced_query obj_outer cls_inner name_inner) (\<lambda>obj_inner.
       case obj_inner of
         None \<Rightarrow> raise (NotFoundError
           (cls_name cls_inner @ '' '' @ name_inner @ '' on '' @
            cls_name (class_of obj_outer) @ '' '' @ label obj_outer @ '' does not exist.''))
       | Some ob \<Rightarrow> ret ob)"

section \<open>The REST calls of \<open>api.py\<close>\<close>

definition service_create ::
  "string \<Rightarrow> string \<Rightarrow> string \<Rightarrow> string \<Rightarrow> obj list \<Rightarrow> (error + unit) \<times> obj list" where
  "service_create service type_name api_name endpoint_name =
     run_request
       (bindE (model_getattr ''Service'') (\<lambda>c.
        bindE (assert_absent c service) (\<lambda>u.
        bindE (model_getattr ''API'') (\<lambda>c.
        bindE (must_find c api_name) (\<lambda>api_obj.
        bindE (model_getattr ''Service'') (\<lambda>c.
        bindE (Service_init service type_name (Single api_obj) endpoint_name) (\<lambda>service_obj.
        bindE (update (db_add service_obj)) (\<lambda>u.
        update db_commit))))))))"

definition service_delete :: "string \<Rightarrow> obj list \<Rightarrow> (error + unit) \<times> obj list" where
  "service_delete service =
     run_request
       (bindE (model_getattr ''Service'') (\<lambda>c.
        bindE (must_find c service) (\<lambda>service_obj.
        bindE (update (db_delete service_obj)) (\<lambda>u.
        update db_commit))))"

definition api_create :: "string \<Rightarrow> obj list \<Rightarrow> (error + unit) \<times> obj list" where
  "api_create api_name =
     run_request
       (bindE (model_getattr ''Group'') (\<lambda>c.
        bindE (assert_absent c api_name) (\<lambda>u.
        bindE (model_getattr ''API'') (\<lambda>c.
        bindE (API_init api_name) (\<lambda>api_obj.
        bindE (update (db_add api_obj)) (\<lambda>u.
        update db_commit))))))"

definition api_delete :: "string \<Rightarrow> obj list \<Rightarrow> (error + unit) \<times> obj list" where
  "api_delete api_name =
     run_request
       (bindE (model_getattr ''API'') (\<lambda>c.
        bindE (must_find c api_name) (\<lambda>api_obj.
        bindE (update (db_delete api_obj)) (\<lambda>u.
        update db_commit))))"

section \<open>What the schema enforces\<close>

text \<open>
  A column constrains the rows of a database: a column that is not nullable has a value in
  every row, and a primary key or unique column has no value twice in one table.
\<close>

definition column_holds :: "column \<Rightarrow> (obj \<Rightarrow> 'a option) \<Rightarrow> obj list \<Rightarrow> bool" where
  "column_holds col val st =
     ((if nullable col then True else None \<notin> set (map val st)) \<and>
      (if primary_key col \<or> unique col
       then distinct (map (\<lambda>r. (class_of r, val r)) st) else True))"

text \<open>The states of the database that the columns of \<open>Model\<close> admit.\<close>

definition store_accepts :: "obj list \<Rightarrow> bool" where
  "store_accepts st =
     (column_holds id_column obj_id st \<and> column_holds label_column (\<lambda>r. Some (label r)) st)"

text \<open>
  Label uniqueness: no two rows agree on class, owner reference and label. For the classes
  of \<open>model.py\<close>, which have no owner, this is one row at most for a class and a label.
\<close>

definition unique_labels :: "obj list \<Rightarrow> bool" where
  "unique_labels st = distinct (map (\<lambda>r. (class_of r, owner_ref r, label r)) st)"

section \<open>Queries\<close>

lemmas action_defs = ret_def raise_def bindE_def update_def model_getattr_def model_class_def
  run_request_def

lemma mappers_not_ok: "\<not> mappers_ok"
  by (simp add: mappers_ok_def links_def service_api_def tablename_def lower_def)

lemma configure_mappers_raises:
  "configure_mappers db = (Inl (NoForeignKeysError ''Service.api''), db)"
  by (simp add: configure_mappers_def mappers_not_ok raise_def)

lemma db_query_declared:
  "declared c \<Longrightarrow> db_query c db = (Inl (NoForeignKeysError ''Service.api''), db)"
  by (simp add: db_query_def bindE_def configure_mappers_raises)

lemma db_query_other: "\<not> declared c \<Longrightarrow> db_query c db = (Inr (table_rows db c), db)"
  by (simp add: db_query_def bindE_def ret_def)

lemma first_row_None: "first_row q = None \<longleftrightarrow> q = []"
  by (cases q) simp_all

lemma first_row_Some: "first_row q = Some r \<Longrightarrow> r \<in> set q"
  by (cases q) auto

lemma first_label_None:
  "first_row (filter_by_label name q) = None \<longleftrightarrow> (\<forall>r \<in> set q. label r \<noteq> name)"
  by (simp add: first_row_None filter_by_label_def filter_empty_conv)

lemma first_label_Some:
  "first_row (filter_by_label name q) = Some r \<Longrightarrow> r \<in> set q \<and> label r = name"
  using first_row_Some [of "filter_by_label name q" r] by (simp add: filter_by_label_def)

section \<open>The REST calls, unfolded\<close>

lemma service_create_eq:
  "service_create s t a e st = (Inl (NoForeignKeysError ''Service.api''), st)"
  by (simp add: service_create_def action_defs assert_absent_def db_query_declared Session_def)

lemma service_delete_eq:
  "service_delete s st = (Inl (NoForeignKeysError ''Service.api''), st)"
  by (simp add: service_delete_def action_defs must_find_def db_query_declared Session_def)

lemma api_delete_eq:
  "api_delete a st = (Inl (NoForeignKeysError ''Service.api''), st)"
  by (simp add: api_delete_def action_defs must_find_def db_query_declared Session_def)

lemma api_create_eq: "api_create a st = (Inl (AttributeError ''Group''), st)"
  by (simp add: api_create_def action_defs Session_def)

section \<open>Claims about the guards\<close>

text \<open>
  On a class whose table can be queried the two guards do what their docstrings say.
\<close>

lemma assert_absent_queried:
  assumes "\<not> declared T"
  shows "fst (assert_absent T L db) =
           (if \<exists>r \<in> set (rows db). class_of r = T \<and> label r = L
            then Inl (DuplicateError (cls_name T @ '' '' @ L @ '' already exists.''))
            else Inr ())"
proof (cases "first_row (filter_by_label L (table_rows db T))")
  case None
  then have "\<forall>r \<in> set (table_rows db T). label r \<noteq> L" by (simp add: first_label_None)
  then have "\<not> (\<exists>r \<in> set (rows db). class_of r = T \<and> label r = L)"
    by (auto simp add: table_rows_def)
  with None assms show ?thesis
    by (simp add: assert_absent_def bindE_def db_query_other ret_def)
next
  case (Some ob)
  then have "ob \<in> set (table_rows db T) \<and> label ob = L" by (rule first_label_Some)
  then have "\<exists>r \<in> set (rows db). class_of r = T \<and> label r = L"
    by (auto simp add: table_rows_def)
  with Some assms show ?thesis
    by (simp add: assert_absent_def bindE_def db_query_other raise_def)
qed

lemma must_find_queried:
  assumes "\<not> declared T"
  shows "(\<exists>ob. fst (must_find T L db) = Inr ob \<and> ob \<in> set (rows db) \<and>
               class_of ob = T \<and> label ob = L) \<or>
         ((\<forall>r \<in> set (rows db). class_of r = T \<longrightarrow> label r \<noteq> L) \<and>
          fst (must_find T L db) =
            Inl (NotFoundError (cls_name T @ '' '' @ L @ '' does not exist.'')))"
proof (cases "first_row (filter_by_label L (table_rows db T))")
  case None
  then have "\<forall>r \<in> set (table_rows db T). label r \<noteq> L" by (simp add: first_label_None)
  then have "\<forall>r \<in> set (rows db). class_of r = T \<longrightarrow> label r \<noteq> L"
    by (auto simp add: table_rows_def)
  with None assms show ?thesis
    by (simp add: must_find_def bindE_def db_query_other raise_def)
next
  case (Some ob)
  then have "ob \<in> set (table_rows db T) \<and> label ob = L" by (rule first_label_Some)
  then have "ob \<in> set (rows db) \<and> class_of ob = T \<and> label ob = L"
    by (auto simp add: table_rows_def)
  with Some assms show ?thesis
    by (simp add: must_find_def bindE_def db_query_other ret_def)
qed

text \<open>
  C1. On a database without an API labelled \<open>a\<close>, \<open>_assert_absent\<close> for the class \<open>API\<close>
  should return normally, and with such a row it should raise \<open>DuplicateError\<close>. The
  joining table \<open>service_api\<close> names the table \<open>user\<close> where the relationship
  \<open>Service.api\<close> needs the table \<open>service\<close>, so the query of the guard raises
  \<open>NoForeignKeysError\<close> in both cases.
\<close>

theorem assert_absent_api_raises:
  "fst (assert_absent API ''a'' (Session [])) = Inl (NoForeignKeysError ''Service.api'') \<and>
   fst (assert_absent API ''a'' (Session [APIObj (Some 1) ''a''])) =
     Inl (NoForeignKeysError ''Service.api'')"
  by (simp add: assert_absent_def bindE_def db_query_declared)

text \<open>
  C2. On a database without an API labelled \<open>a\<close>, \<open>_must_find\<close> for the class \<open>API\<close>
  should raise \<open>NotFoundError\<close>, and with such a row it should return the row. The query of
  the guard raises \<open>NoForeignKeysError\<close> in both cases, for the same reason as in C1.
\<close>

theorem must_find_api_raises:
  "fst (must_find API ''a'' (Session [])) = Inl (NoForeignKeysError ''Service.api'') \<and>
   fst (must_find API ''a'' (Session [APIObj (Some 1) ''a''])) =
     Inl (NoForeignKeysError ''Service.api'')"
  by (simp add: must_find_def bindE_def db_query_declared)

text \<open>
  C9. The four guards are read-only: whatever the session and the arguments, and whether the
  guard returns or raises, the session it leaves is the session it was given, so the
  committed rows are the same.
\<close>

theorem guards_read_only:
  "snd (assert_absent c name db) = db \<and>
   snd (must_find c name db) = db \<and>
   snd (assert_absent_n obj_outer c name db) = db \<and>
   snd (must_find_n obj_outer c name db) = db"
  by (cases "declared c")
    (simp_all add: assert_absent_def must_find_def assert_absent_n_def must_find_n_def
      namespaced_query_def db_query_declared db_query_other bindE_def ret_def raise_def
      split: option.splits)

section \<open>Claims about \<open>service_create\<close>\<close>

text \<open>
  C4. On the empty database, where neither the service \<open>svc1\<close> nor the API
  \<open>missing-api\<close> exists, \<open>service_create\<close> should raise \<open>NotFoundError\<close> (404). Its first
  guard queries the class \<open>Service\<close>, and the query raises \<open>NoForeignKeysError\<close>, which has
  no status code of the API. The database is unchanged.
\<close>

theorem service_create_missing_api_raises:
  "service_create ''svc1'' ''t'' ''missing-api'' ''e'' [] =
     (Inl (NoForeignKeysError ''Service.api''), []) \<and>
   status_code (NoForeignKeysError ''Service.api'') = None"
  by (simp add: service_create_eq)

text \<open>
  C10. On a database that holds the service \<open>svc1\<close> and no API \<open>missing-api\<close>,
  \<open>service_create\<close> should raise \<open>DuplicateError\<close> (409). The query of its first guard
  raises \<open>NoForeignKeysError\<close> before the guard compares a label.
\<close>

theorem service_create_duplicate_raises:
  "service_create ''svc1'' ''t'' ''missing-api'' ''e'' [ServiceObj (Some 1) ''svc1'' ''t'' [] ''e''] =
     (Inl (NoForeignKeysError ''Service.api''), [ServiceObj (Some 1) ''svc1'' ''t'' [] ''e'']) \<and>
   status_code (NoForeignKeysError ''Service.api'') = None"
  by (simp add: service_create_eq)

section \<open>Claims about \<open>api_create\<close>\<close>

text \<open>
  C3. The scenario starts with \<open>api_create("gamma")\<close> on a database without that label,
  which should succeed. \<open>api_create\<close> guards with \<open>model.Group\<close>, a name \<open>model.py\<close>
  does not define: the call raises \<open>AttributeError\<close>, which has no status code of the
  API, and adds nothing.
\<close>

theorem api_create_gamma_raises:
  "api_create ''gamma'' [] = (Inl (AttributeError ''Group''), []) \<and>
   status_code (AttributeError ''Group'') = None"
  by (simp add: api_create_eq)

text \<open>
  C6. The round trip starts with \<open>api_create("foo")\<close>, after which \<open>_must_find\<close> should
  return a row labelled \<open>foo\<close>. On the empty database the create raises and persists
  nothing, and the lookup that follows raises as well, returning no row.
\<close>

theorem api_create_foo_not_found:
  "api_create ''foo'' [] = (Inl (AttributeError ''Group''), []) \<and>
   fst (must_find API ''foo'' (Session (snd (api_create ''foo'' [])))) =
     Inl (NoForeignKeysError ''Service.api'')"
  by (simp add: api_create_eq must_find_def bindE_def db_query_declared)

section \<open>Claims about the namespaced guards\<close>






section \<open>Claims about deleting twice\<close>

text \<open>
  C7. After a successful delete of a label, a further delete should raise
  \<open>NotFoundError\<close> and no other error. No delete succeeds: with the API \<open>a\<close> present,
  \<open>api_delete\<close> raises \<open>NoForeignKeysError\<close> at the query of \<open>_must_find\<close> and the row
  stays; with the label absent, as after a delete, \<open>api_delete\<close> and \<open>service_delete\<close>
  raise \<open>NoForeignKeysError\<close>, not \<open>NotFoundError\<close>.
\<close>

theorem delete_raises:
  "api_delete ''a'' [APIObj (Some 1) ''a''] =
     (Inl (NoForeignKeysError ''Service.api''), [APIObj (Some 1) ''a'']) \<and>
   api_delete ''a'' [] = (Inl (NoForeignKeysError ''Service.api''), []) \<and>
   service_delete ''a'' [] = (Inl (NoForeignKeysError ''Service.api''), [])"
  by (simp add: api_delete_eq service_delete_eq)

section \<open>Claims about label uniqueness\<close>

text \<open>
  C8, as stated, fails: \<open>label\<close> is declared without a unique constraint, so the columns
  of \<open>Model\<close> admit a database in which two rows of the class \<open>API\<close> carry one label.
\<close>

theorem schema_admits_duplicate_label:
  "store_accepts [APIObj (Some 1) ''x'', APIObj (Some 2) ''x''] \<and>
   \<not> unique_labels [APIObj (Some 1) ''x'', APIObj (Some 2) ''x'']"
  by (simp add: store_accepts_def column_holds_def id_column_def label_column_def
      unique_labels_def)

lemma class_of_with_id: "class_of (with_id k r) = class_of r"
  by (cases r) simp_all

lemma obj_id_with_id: "obj_id (with_id k r) = Some k"
  by (cases r) simp_all

lemma identity_with_id: "identity (with_id k r) = (class_of r, Some k)"
  by (simp add: identity_def class_of_with_id obj_id_with_id)

text \<open>
  C8, amended. The schema enforces no uniqueness of labels: what the columns of \<open>Model\<close>
  enforce is a primary key in every row, unique in its table. A database they admit,
  extended by any row under a primary key that is new for its class, is admitted again,
  whatever the label of the row and whether or not a row of the class has that label.
\<close>

theorem schema_accepts_any_label:
  assumes "store_accepts st"
    and "(class_of r, Some k) \<notin> set (map identity st)"
  shows "store_accepts (st @ [with_id k r])"
proof -
  have "(\<lambda>x. (class_of x, obj_id x)) = identity" by (simp add: identity_def fun_eq_iff)
  with assms show ?thesis
    by (simp add: store_accepts_def column_holds_def id_column_def label_column_def
        identity_with_id obj_id_with_id)
qed

theorem schema_accepts_any_label_witness:
  "store_accepts [ServiceObj (Some 1) ''s'' ''t'' [] ''e''] \<and>
   store_accepts ([ServiceObj (Some 1) ''s'' ''t'' [] ''e''] @
     [with_id 2 (ServiceObj None ''s'' ''u'' [] ''f'')])"
proof -
  have a: "store_accepts [ServiceObj (Some 1) ''s'' ''t'' [] ''e'']"
    by (simp add: store_accepts_def column_holds_def id_column_def label_column_def)
  have b: "(class_of (ServiceObj None ''s'' ''u'' [] ''f''), Some 2) \<notin>
      set (map identity [ServiceObj (Some 1) ''s'' ''t'' [] ''e''])"
    by (simp add: identity_def)
  from a schema_accepts_any_label [OF a b] show ?thesis by simp
qed

end
